theory Spec2Isabelle
  imports Main "HOL-Library.Sublist"
begin

section \<open>Environment variables\<close>

text \<open>
  \<^verbatim>\<open>process.env.NEXT_PUBLIC_CLERK_PUBLISHABLE_KEY\<close> has the TypeScript type
  \<^verbatim>\<open>string | undefined\<close>: \<open>None\<close> is the unset variable. Both frontend modules
  test the value with JavaScript truthiness (\<^verbatim>\<open>clerkKey ? ... : ...\<close> and
  \<^verbatim>\<open>!clerkKey\<close>): \<^verbatim>\<open>undefined\<close> and the empty string are falsy, every other
  string is truthy.
\<close>

definition truthy :: "string option \<Rightarrow> bool" where
  "truthy v = (case v of None \<Rightarrow> False | Some s \<Rightarrow> s \<noteq> [])"

section \<open>The frontend proxy (nextjs/src/proxy.ts)\<close>

text \<open>
  The static constructors of \<^verbatim>\<open>NextResponse\<close> (next/server); the proxy module itself
  only ever builds \<^verbatim>\<open>NextResponse.next()\<close>.
\<close>

datatype NextResponse =
    NextResponse_next
  | NextResponse_redirect string
  | NextResponse_rewrite string
  | NextResponse_json nat string

text \<open>
  \<^verbatim>\<open>export const proxy = clerkKey ? clerkMiddleware() : () => NextResponse.next();\<close>

  \<open>clerkMiddleware\<close> is the factory imported from \<^verbatim>\<open>@clerk/nextjs/server\<close>; it is a
  parameter of the model, and \<open>clerkKey\<close> is the value read once at module load.
\<close>

definition proxy ::
  "string option \<Rightarrow> (unit \<Rightarrow> 'req \<Rightarrow> NextResponse) \<Rightarrow> 'req \<Rightarrow> NextResponse" where
  "proxy clerkKey clerkMiddleware =
     (if truthy clerkKey then clerkMiddleware () else (\<lambda>_. NextResponse_next))"

subsection \<open>The matcher patterns\<close>

text \<open>
  \<^verbatim>\<open>config.matcher\<close> lists two path patterns. Each is a literal \<^verbatim>\<open>/\<close> followed by
  parenthesised regular expressions; Next.js runs the proxy on a request when one of the
  patterns matches the whole pathname. The model is the fragment of JavaScript regular
  expressions the two patterns are written in, matched case-sensitively and anchored at
  both ends. What Next.js adds around a pattern when it compiles it (data-route prefixes,
  a base path) is not part of this repository and is not modelled.
\<close>

datatype regex =
    Lit string          \<comment> \<open>literal characters\<close>
  | Dot                 \<comment> \<open>\<^verbatim>\<open>.\<close>\<close>
  | NoneOf string       \<comment> \<open>\<^verbatim>\<open>[^...]\<close>\<close>
  | Seq "regex list"    \<comment> \<open>concatenation\<close>
  | Alt "regex list"    \<comment> \<open>\<^verbatim>\<open>r|s|...\<close>\<close>
  | Opt regex           \<comment> \<open>\<^verbatim>\<open>r?\<close>\<close>
  | Star regex          \<comment> \<open>\<^verbatim>\<open>r*\<close>\<close>
  | NegLook regex       \<comment> \<open>\<^verbatim>\<open>(?!r)\<close>\<close>
  | Group regex         \<comment> \<open>\<^verbatim>\<open>(r)\<close> and \<^verbatim>\<open>(?:r)\<close>\<close>

text \<open>
  \<^verbatim>\<open>.\<close> matches any character but a line terminator. Strings are byte strings here, so
  the terminators are line feed and carriage return.
\<close>

definition line_terminators :: "char list" where
  "line_terminators = [CHR 0x0A, CHR 0x0D]"

text \<open>
  Matching by backtracking, as a list of successes: \<open>ends r s\<close> lists the remainders of
  \<open>s\<close> after each way \<open>r\<close> can match a prefix of \<open>s\<close>.
\<close>

definition lit :: "string \<Rightarrow> string \<Rightarrow> string list" where
  "lit w s = (if take (length w) s = w then [drop (length w) s] else [])"

definition one_char :: "(char \<Rightarrow> bool) \<Rightarrow> string \<Rightarrow> string list" where
  "one_char P s = (case s of [] \<Rightarrow> [] | c # t \<Rightarrow> if P c then [t] else [])"

definition andthen ::
  "(string \<Rightarrow> string list) \<Rightarrow> (string \<Rightarrow> string list) \<Rightarrow> string \<Rightarrow> string list" where
  "andthen f g s = concat (map g (f s))"

text \<open>
  An iteration of \<^verbatim>\<open>r*\<close> that consumes nothing is rejected by the JavaScript matcher, so
  every iteration shortens the input and \<open>length s\<close> iterations are enough.
\<close>

primrec star :: "(string \<Rightarrow> string list) \<Rightarrow> nat \<Rightarrow> string \<Rightarrow> string list" where
  "star f 0 s = [s]"
| "star f (Suc n) s =
     s # concat (map (star f n) (filter (\<lambda>t. length t < length s) (f s)))"

primrec ends :: "regex \<Rightarrow> string \<Rightarrow> string list" where
  "ends (Lit w) = lit w"
| "ends Dot = one_char (\<lambda>c. c \<notin> set line_terminators)"
| "ends (NoneOf cs) = one_char (\<lambda>c. c \<notin> set cs)"
| "ends (Seq rs) = foldr andthen (map ends rs) (\<lambda>s. [s])"
| "ends (Alt rs) = (\<lambda>s. concat (map (\<lambda>f. f s) (map ends rs)))"
| "ends (Opt r) = (\<lambda>s. ends r s @ [s])"
| "ends (Star r) = (\<lambda>s. star (ends r) (length s) s)"
| "ends (NegLook r) = (\<lambda>s. if ends r s = [] then [s] else [])"
| "ends (Group r) = ends r"

text \<open>\<open>can r s\<close>: \<open>r\<close> matches at the start of \<open>s\<close>; \<open>test r s\<close>: \<open>r\<close> matches all of \<open>s\<close>.\<close>

definition can :: "regex \<Rightarrow> string \<Rightarrow> bool" where
  "can r s = (ends r s \<noteq> [])"

definition test :: "regex \<Rightarrow> string \<Rightarrow> bool" where
  "test r s = ([] \<in> set (ends r s))"

text \<open>
  \<^verbatim>\<open>(?:html?|css|js(?!on)|jpe?g|webp|png|gif|svg|ttf|woff2?|ico|csv|docx?|xlsx?|zip|webmanifest)\<close>
\<close>

definition static_file_extension :: regex where
  "static_file_extension =
     Group (Alt [
       Seq [Lit ''htm'', Opt (Lit ''l'')],
       Lit ''css'',
       Seq [Lit ''js'', NegLook (Lit ''on'')],
       Seq [Lit ''jp'', Opt (Lit ''e''), Lit ''g''],
       Lit ''webp'', Lit ''png'', Lit ''gif'', Lit ''svg'', Lit ''ttf'',
       Seq [Lit ''woff'', Opt (Lit ''2'')],
       Lit ''ico'', Lit ''csv'',
       Seq [Lit ''doc'', Opt (Lit ''x'')],
       Seq [Lit ''xls'', Opt (Lit ''x'')],
       Lit ''zip'', Lit ''webmanifest''])"

text \<open>The body of the lookahead: \<^verbatim>\<open>_next|[^?]*\.(?:html?|...|webmanifest)\<close>\<close>

definition skipped :: regex where
  "skipped =
     Alt [Lit ''_next'',
          Seq [Star (NoneOf ''?''), Lit ''.'', static_file_extension]]"

text \<open>
  \<^verbatim>\<open>
  export const config = {
    matcher: [
      "/((?!_next|[^?]*\\.(?:html?|css|js(?!on)|jpe?g|webp|png|gif|svg|ttf|woff2?|ico|csv|docx?|xlsx?|zip|webmanifest)).*)",
      "/(api|trpc)(.*)",
    ],
  };
  \<close>
\<close>

definition matcher :: "regex list" where
  "matcher =
     [Seq [Lit ''/'', Group (Seq [NegLook skipped, Star Dot])],
      Seq [Lit ''/'', Group (Alt [Lit ''api'', Lit ''trpc'']), Group (Star Dot)]]"

definition proxy_runs :: "string \<Rightarrow> bool" where
  "proxy_runs pathname = list_ex (\<lambda>m. test m pathname) matcher"

subsection \<open>Paths, as the description of the matcher speaks of them\<close>







text \<open>
  What the lookahead looks for after a dot, read off \<open>static_file_extension\<close>: one of
  these strings next, or \<^verbatim>\<open>js\<close> not followed by \<^verbatim>\<open>on\<close>.
\<close>

definition starts_static_extension :: "string \<Rightarrow> bool" where
  "starts_static_extension v =
     (list_ex (\<lambda>e. prefix e v)
        [''htm'', ''css'', ''jpg'', ''jpeg'', ''webp'', ''png'', ''gif'', ''svg'', ''ttf'',
         ''woff'', ''ico'', ''csv'', ''doc'', ''xls'', ''zip'', ''webmanifest'']
      \<or> prefix ''js'' v \<and> \<not> prefix ''json'' v)"

section \<open>Provider composition (nextjs/src/providers/index.tsx)\<close>

text \<open>
  The JSX trees the component can return: the \<^verbatim>\<open>{children}\<close> slot, and the two
  provider elements, each with one child.
\<close>

datatype 'a element =
    Children 'a
  | ApolloProvider "'a element"
  | ClerkProvider "'a element"


text \<open>
  The sources also hold the variant without Clerk, which never reads the key:
  \<^verbatim>\<open>
  export const Providers = ({ children }) => {
    return <ApolloProvider>{children}</ApolloProvider>;
  };
  \<close>
\<close>

definition Providers_apollo :: "'a \<Rightarrow> 'a element" where
  "Providers_apollo children = ApolloProvider (Children children)"

text \<open>What a tree renders: the children slots it contains, in order, and its providers.\<close>

fun rendered :: "'a element \<Rightarrow> 'a list" where
  "rendered (Children c) = [c]"
| "rendered (ApolloProvider e) = rendered e"
| "rendered (ClerkProvider e) = rendered e"

fun has_ClerkProvider :: "'a element \<Rightarrow> bool" where
  "has_ClerkProvider (Children c) = False"
| "has_ClerkProvider (ApolloProvider e) = has_ClerkProvider e"
| "has_ClerkProvider (ClerkProvider e) = True"

section \<open>The backend: the User model and the \<^verbatim>\<open>user\<close> query\<close>

text \<open>The Prisma schema of the starter: \<^verbatim>\<open>enum UserRole\<close> and \<^verbatim>\<open>model User\<close>.\<close>

datatype UserRole = ADMIN | USER

text \<open>
  The custom claims of the session token (nodejs/src/types/global.d.ts); every field is
  optional.
\<close>

datatype Environment = development | production | local

record CustomJwtSessionClaims =
  dbUserId :: "int option"
  environment :: "Environment option"
  role :: "UserRole option"

text \<open>
  A row of \<^verbatim>\<open>model User\<close>. \<^verbatim>\<open>id\<close> and \<^verbatim>\<open>image\<close> are written \<open>id'\<close> and
  \<open>image'\<close>; the \<^verbatim>\<open>DateTime\<close> columns are timestamps.
\<close>

record User =
  id' :: int
  auth_id :: string
  email :: string
  name :: "string option"
  phone :: "string option"
  image' :: "string option"
  role :: UserRole
  subscribed_to_newsletter :: bool
  newsletter_subscribed_at :: "int option"
  created_at :: int
  updated_at :: int

text \<open>
  The per-request GraphQL context, as far as the resolver reads it: \<^verbatim>\<open>ctx.user\<close> may be
  undefined (\<^verbatim>\<open>ctx.user?.dbUserId\<close>). \<^verbatim>\<open>ctx.prisma\<close> is the database client below,
  passed as the state.
\<close>

record Context =
  user :: "CustomJwtSessionClaims option"



subsection \<open>The database client\<close>

text \<open>
  The client holds the rows of the User table and records every query it sends.
  \<^verbatim>\<open>prisma.user.findUnique({ where: { id } })\<close> resolves to the row with that id, or to
  \<^verbatim>\<open>null\<close>. With \<^verbatim>\<open>id: undefined\<close> Prisma rejects the call before sending anything;
  \<open>where_needs_argument\<close> stands for the text of its validation error. A database that
  cannot be reached is outside the model.
\<close>

datatype query = User_findUnique int




subsection \<open>Error handling in resolvers\<close>


subsection \<open>The resolver\<close>


subsection \<open>The query of the frontend\<close>







subsection \<open>Read and write routing\<close>

text \<open>
  Modelled from the spec: the routing of database operations, done by the Prisma client
  of \<^verbatim>\<open>src/lib/prisma.ts\<close> and the read-replica extension it configures, neither among
  the sources. The specification: ``pick one of two pre-configured connection pools based
  on operation type'', ``directing reads to replicas, writes to a primary''.
\<close>

datatype operation_type = Read | Write

datatype pool = Primary | Replica

definition route :: "operation_type \<Rightarrow> pool" where
  "route op = (case op of Read \<Rightarrow> Replica | Write \<Rightarrow> Primary)"

text \<open>The one query of the application, \<^verbatim>\<open>findUnique\<close>, is a read.\<close>

fun operation_type_of :: "query \<Rightarrow> operation_type" where
  "operation_type_of (User_findUnique k) = Read"

subsection \<open>Example data\<close>






section \<open>Properties of the proxy and of the providers\<close>

lemma truthy_simps:
  "truthy None = False"
  "truthy (Some s) = (s \<noteq> [])"
  by (simp_all add: truthy_def)

text \<open>
  C5. With a configured (non-empty) Clerk publishable key, the exported proxy is exactly
  the function returned by \<^verbatim>\<open>clerkMiddleware()\<close>: the module wraps nothing around it.
\<close>

theorem proxy_is_clerkMiddleware:
  assumes "truthy clerkKey"
  shows "proxy clerkKey clerkMiddleware = clerkMiddleware ()"
  using assms by (simp add: proxy_def)

theorem proxy_is_clerkMiddleware_witness:
  "truthy (Some ''pk_test_abc'')
   \<and> proxy (Some ''pk_test_abc'') (\<lambda>_ req. NextResponse_redirect (''/sign-in?from='' @ req))
       = (\<lambda>req. NextResponse_redirect (''/sign-in?from='' @ req))"
proof -
  have k: "truthy (Some ''pk_test_abc'')"
    by (simp add: truthy_simps)
  from proxy_is_clerkMiddleware [OF k, of "\<lambda>_ req. NextResponse_redirect (''/sign-in?from='' @ req)"]
  show ?thesis using k by simp
qed

text \<open>
  C6. With the key unset at module load, the exported proxy answers every request with
  \<^verbatim>\<open>NextResponse.next()\<close>, whatever the Clerk factory is: it is never called.
\<close>

theorem proxy_unset_passes_through:
  "proxy None clerkMiddleware req = NextResponse_next"
  by (simp add: proxy_def truthy_simps)



lemma Providers_apollo_renders_children_once:
  "rendered (Providers_apollo children) = [children]
   \<and> \<not> has_ClerkProvider (Providers_apollo children)"
  by (simp add: Providers_apollo_def)

section \<open>What the matcher patterns match\<close>

subsection \<open>The matching function, constructor by constructor\<close>

lemma set_lit: "set (lit w s) = {t. s = w @ t}"
proof -
  have "(take (length w) s = w) = (\<exists>t. s = w @ t)"
    by (metis append_eq_conv_conj append_take_drop_id)
  then show ?thesis
    by (auto simp: lit_def)
qed

lemma one_char_simps:
  "one_char P [] = []"
  "one_char P (c # t) = (if P c then [t] else [])"
  by (simp_all add: one_char_def)

lemma set_andthen: "set (andthen f g s) = (\<Union>t\<in>set (f s). set (g t))"
  by (simp add: andthen_def)

text \<open>Iterating a one-character matcher strips any prefix of accepted characters.\<close>

lemma set_star_one_char:
  "set (star (one_char P) n s) = {t. \<exists>u. s = u @ t \<and> length u \<le> n \<and> (\<forall>c\<in>set u. P c)}"
proof (induction n arbitrary: s)
  case 0
  show ?case by auto
next
  case (Suc n)
  show ?case
  proof (cases s)
    case Nil
    then show ?thesis by (auto simp: one_char_simps)
  next
    case (Cons c s')
    have "set (star (one_char P) (Suc n) s)
          = insert s (if P c then set (star (one_char P) n s') else {})"
      using Cons by (simp add: one_char_simps)
    also have "\<dots> = {t. \<exists>u. s = u @ t \<and> length u \<le> Suc n \<and> (\<forall>c\<in>set u. P c)}"
    proof (intro set_eqI iffI)
      fix t assume "t \<in> insert s (if P c then set (star (one_char P) n s') else {})"
      then consider "t = s" | "P c" "t \<in> set (star (one_char P) n s')"
        by (auto split: if_splits)
      then show "t \<in> {t. \<exists>u. s = u @ t \<and> length u \<le> Suc n \<and> (\<forall>c\<in>set u. P c)}"
      proof cases
        case 1
        then show ?thesis by (auto intro: exI [of _ "[]"])
      next
        case 2
        then obtain u where "s' = u @ t" "length u \<le> n" "\<forall>c\<in>set u. P c"
          by (auto simp: Suc.IH)
        with 2 Cons show ?thesis
          by (auto intro!: exI [of _ "c # u"])
      qed
    next
      fix t assume "t \<in> {t. \<exists>u. s = u @ t \<and> length u \<le> Suc n \<and> (\<forall>c\<in>set u. P c)}"
      then obtain u where u: "s = u @ t" "length u \<le> Suc n" "\<forall>c\<in>set u. P c"
        by auto
      show "t \<in> insert s (if P c then set (star (one_char P) n s') else {})"
      proof (cases u)
        case Nil
        with u show ?thesis by simp
      next
        case (Cons d u')
        with u \<open>s = c # s'\<close>
        have "d = c" "s' = u' @ t" "length u' \<le> n" "P c" "\<forall>c\<in>set u'. P c"
          by auto
        then show ?thesis
          by (auto simp: Suc.IH)
      qed
    qed
    finally show ?thesis .
  qed
qed

lemma in_ends:
  "t \<in> set (ends (Lit w) s) \<longleftrightarrow> s = w @ t"
  "t \<in> set (ends (Seq []) s) \<longleftrightarrow> t = s"
  "t \<in> set (ends (Seq (r # rs)) s) \<longleftrightarrow> (\<exists>m. m \<in> set (ends r s) \<and> t \<in> set (ends (Seq rs) m))"
  "t \<in> set (ends (Alt rs) s) \<longleftrightarrow> list_ex (\<lambda>r. t \<in> set (ends r s)) rs"
  "t \<in> set (ends (Opt r) s) \<longleftrightarrow> t = s \<or> t \<in> set (ends r s)"
  "t \<in> set (ends (NegLook r) s) \<longleftrightarrow> t = s \<and> \<not> can r s"
  "t \<in> set (ends (Group r) s) \<longleftrightarrow> t \<in> set (ends r s)"
  by (auto simp: set_lit set_andthen can_def list_ex_iff)

lemma in_ends_Star:
  "t \<in> set (ends (Star Dot) s) \<longleftrightarrow> (\<exists>u. s = u @ t \<and> set u \<inter> set line_terminators = {})"
  "t \<in> set (ends (Star (NoneOf cs)) s) \<longleftrightarrow> (\<exists>u. s = u @ t \<and> set u \<inter> set cs = {})"
  by (auto simp: set_star_one_char)

declare ends.simps [simp del]

lemma can_iff: "can r s \<longleftrightarrow> (\<exists>t. t \<in> set (ends r s))"
  by (cases "ends r s") (auto simp: can_def)

lemma can_Lit: "can (Lit w) s \<longleftrightarrow> prefix w s"
  by (simp add: can_iff in_ends prefix_def)

lemma can_Lit_Opt: "can (Seq [Lit w, Opt r]) s \<longleftrightarrow> prefix w s"
  by (auto simp: can_iff in_ends prefix_def)

lemma can_Lit_NegLook:
  "can (Seq [Lit w, NegLook (Lit x)]) s \<longleftrightarrow> prefix w s \<and> \<not> prefix (w @ x) s"
  by (auto simp: can_iff in_ends can_Lit prefix_def)

lemma can_Lit_Opt_Lit:
  "can (Seq [Lit w, Opt (Lit x), Lit y]) s \<longleftrightarrow> prefix (w @ y) s \<or> prefix (w @ x @ y) s"
  by (auto simp: can_iff in_ends prefix_def)

lemma can_Alt: "can (Alt rs) s \<longleftrightarrow> list_ex (\<lambda>r. can r s) rs"
  by (auto simp: can_iff in_ends list_ex_iff)

lemma can_Group: "can (Group r) s \<longleftrightarrow> can r s"
  by (simp add: can_iff in_ends)

lemma can_Seq_Cons:
  "can (Seq (r # rs)) s \<longleftrightarrow> (\<exists>m. m \<in> set (ends r s) \<and> can (Seq rs) m)"
  by (auto simp: can_iff in_ends)

lemma can_Seq_single: "can (Seq [r]) s \<longleftrightarrow> can r s"
  by (auto simp: can_iff in_ends)

subsection \<open>The two patterns\<close>

lemma can_static_file_extension:
  "can static_file_extension v \<longleftrightarrow> starts_static_extension v"
  unfolding static_file_extension_def starts_static_extension_def
  apply (simp only: can_Group can_Alt list_ex_Nil_iff list_ex_Cons_iff can_Lit can_Lit_Opt
      can_Lit_NegLook can_Lit_Opt_Lit append.simps)
  apply blast
  done

text \<open>
  The lookahead finds something to skip when the rest of the path starts with
  \<^verbatim>\<open>_next\<close>, or holds, before any \<^verbatim>\<open>?\<close>, a dot followed by a static extension: anywhere,
  not only at the end of the path.
\<close>

lemma can_skipped:
  "can skipped r \<longleftrightarrow>
     prefix ''_next'' r
     \<or> (\<exists>u v. r = u @ CHR ''.'' # v \<and> CHR ''?'' \<notin> set u \<and> starts_static_extension v)"
proof -
  have tail: "can (Seq [Lit ''.'', static_file_extension]) m
        \<longleftrightarrow> (\<exists>v. m = CHR ''.'' # v \<and> starts_static_extension v)" for m
    by (simp add: can_Seq_Cons [of "Lit _"] in_ends(1) can_Seq_single can_static_file_extension)
  have "can (Seq [Star (NoneOf ''?''), Lit ''.'', static_file_extension]) r
        \<longleftrightarrow> (\<exists>u v. r = u @ CHR ''.'' # v \<and> CHR ''?'' \<notin> set u \<and> starts_static_extension v)"
    unfolding can_Seq_Cons [of "Star _"] tail
    by (auto simp: in_ends_Star)
  then show ?thesis
    by (simp add: skipped_def can_Alt can_Lit)
qed

lemma test_skip_matcher:
  "test (matcher ! 0) p \<longleftrightarrow>
     (\<exists>r. p = CHR ''/'' # r \<and> \<not> can skipped r \<and> set r \<inter> set line_terminators = {})"
  by (auto simp: matcher_def test_def in_ends in_ends_Star)

lemma test_api_matcher:
  "test (matcher ! 1) p \<longleftrightarrow>
     (\<exists>r. (p = ''/api'' @ r \<or> p = ''/trpc'' @ r) \<and> set r \<inter> set line_terminators = {})"
  by (auto simp: matcher_def test_def in_ends in_ends_Star)

lemma proxy_runs_iff: "proxy_runs p \<longleftrightarrow> test (matcher ! 0) p \<or> test (matcher ! 1) p"
  by (simp add: proxy_runs_def matcher_def)

text \<open>
  The paths the proxy runs on, for every string: a \<^verbatim>\<open>/\<close>, then a rest without line
  terminators that starts with \<^verbatim>\<open>api\<close> or \<^verbatim>\<open>trpc\<close>, or that the lookahead does not skip.
\<close>

lemma proxy_runs_characterisation:
  "proxy_runs p \<longleftrightarrow>
     (\<exists>r. p = CHR ''/'' # r \<and> set r \<inter> set line_terminators = {}
          \<and> (prefix ''api'' r \<or> prefix ''trpc'' r
              \<or> \<not> prefix ''_next'' r
                \<and> \<not> (\<exists>u v. r = u @ CHR ''.'' # v \<and> CHR ''?'' \<notin> set u
                           \<and> starts_static_extension v)))"
  (is "?L \<longleftrightarrow> ?R")
proof
  assume ?L
  then consider "test (matcher ! 0) p" | "test (matcher ! 1) p"
    by (auto simp: proxy_runs_iff)
  then show ?R
  proof cases
    case 1
    then show ?thesis
      unfolding test_skip_matcher can_skipped by blast
  next
    case 2
    then obtain r where r: "p = ''/api'' @ r \<or> p = ''/trpc'' @ r"
      and lt: "set r \<inter> set line_terminators = {}"
      unfolding test_api_matcher by blast
    from r show ?thesis
    proof
      assume "p = ''/api'' @ r"
      with lt show ?thesis
        by (intro exI [of _ "''api'' @ r"]) (simp add: line_terminators_def)
    next
      assume "p = ''/trpc'' @ r"
      with lt show ?thesis
        by (intro exI [of _ "''trpc'' @ r"]) (simp add: line_terminators_def)
    qed
  qed
next
  assume ?R
  then obtain r where p: "p = CHR ''/'' # r" and lt: "set r \<inter> set line_terminators = {}"
    and r: "prefix ''api'' r \<or> prefix ''trpc'' r
            \<or> \<not> prefix ''_next'' r
              \<and> \<not> (\<exists>u v. r = u @ CHR ''.'' # v \<and> CHR ''?'' \<notin> set u \<and> starts_static_extension v)"
    by blast
  from r consider t where "r = ''api'' @ t" | t where "r = ''trpc'' @ t" | "\<not> can skipped r"
    unfolding can_skipped prefix_def by blast
  then show ?L
  proof cases
    case 1
    with p lt have "test (matcher ! 1) p"
      unfolding test_api_matcher by (intro exI [of _ t]) auto
    then show ?thesis by (simp add: proxy_runs_iff)
  next
    case 2
    with p lt have "test (matcher ! 1) p"
      unfolding test_api_matcher by (intro exI [of _ t]) auto
    then show ?thesis by (simp add: proxy_runs_iff)
  next
    case 3
    with p lt have "test (matcher ! 0) p"
      unfolding test_skip_matcher by blast
    then show ?thesis by (simp add: proxy_runs_iff)
  qed
qed

subsection \<open>Segments\<close>







subsection \<open>The description of the matcher\<close>




text \<open>
  What the lookahead leaves alone: \<^verbatim>\<open>.json\<close> is no static extension, and a
  \<^verbatim>\<open>_next\<close> below the first segment does not exclude a path.
\<close>

lemma proxy_runs_examples:
  "proxy_runs ''/''" "proxy_runs ''/dashboard''" "proxy_runs ''/data.json''"
  "proxy_runs ''/trpc/user.get''" "\<not> proxy_runs ''/_next/static/app.js''"
  "\<not> proxy_runs ''/favicon.ico''" "\<not> proxy_runs ''/files/report.docx''"
  "\<not> proxy_runs ''/assets.css/readme''"
  by code_simp+

section \<open>Properties of the backend\<close>



lemma find_id: "find (\<lambda>u. id' u = k) us = Some u \<Longrightarrow> id' u = k \<and> u \<in> set us"
  by (induction us) (auto split: if_splits)













text \<open>
  C4. The pool is picked by the type of the operation alone: a read goes to the replica
  pool, a write to the primary pool, and never the other way round.
\<close>

theorem route_by_operation_type:
  "route Read = Replica \<and> route Write = Primary
   \<and> (route op = Replica) = (op = Read) \<and> (route op = Primary) = (op = Write)"
  by (cases op) (simp_all add: route_def)

lemma queries_routed_to_replica: "route (operation_type_of q) = Replica"
  by (cases q) (simp add: route_def)

end
